theory Spec2Isabelle
  imports Main "HOL-Library.Multiset"
begin

section \<open>Payme merchant endpoint (src/server.js): data model\<close>

text \<open>
  The two tables of \<^verbatim>\<open>initDb\<close> are lists of rows, in insertion order, with the columns
  typed as the schema declares them: integers for \<^verbatim>\<open>INTEGER\<close>, \<^verbatim>\<open>SMALLINT\<close> and \<^verbatim>\<open>BIGINT\<close>,
  a UUID value for \<^verbatim>\<open>donation_id\<close>, a string for \<^verbatim>\<open>paycom_id\<close>.

  The objects the handlers work on are not the rows. The pool is created with the
  driver's defaults, so a \<^verbatim>\<open>BIGINT\<close> column arrives in JavaScript as the string of its
  decimal digits, while \<^verbatim>\<open>Date.now()\<close> and the literal 0 are numbers; \<^verbatim>\<open>getTransaction\<close> and
  \<^verbatim>\<open>listTransactions\<close> pass the strings on unconverted. A time field of a \<^verbatim>\<open>tx\<close> object is
  therefore a \<open>jsval\<close>: a number, or the decimal text of an integer. \<^verbatim>\<open>INTEGER\<close> and
  \<^verbatim>\<open>SMALLINT\<close> columns arrive as numbers. A UUID column arrives as its canonical
  (lower-case) text, and a text given for a UUID is read without regard to the case of
  its hexadecimal digits.

  Calls are served one after another: a handler's reads and writes are not interleaved
  with those of another request. The queries do not fail (identifiers are well-formed
  and numbers fit their columns), so the \<^verbatim>\<open>catch\<close> branch of \<^verbatim>\<open>merchantHandler\<close> (error -32400)
  has no counterpart, and the JSON-RPC \<^verbatim>\<open>id\<close>, which is only echoed, is left out of the
  responses.
\<close>

type_synonym uuid = string

datatype jsval = JsNumber int | JsString int

text \<open>The number a \<open>jsval\<close> denotes: what \<^verbatim>\<open>BIGINT\<close> stores for it and what \<^verbatim>\<open><\<close> compares.\<close>

fun num_of :: "jsval \<Rightarrow> int" where
  "num_of (JsNumber n) = n"
| "num_of (JsString n) = n"

record donation =
  d_id :: uuid
  d_amount :: int
  d_state :: int
  d_created_at :: int

text \<open>A row of the table \<^verbatim>\<open>transactions\<close>.\<close>

record tx_row =
  col_paycom_id :: string
  col_donation_id :: uuid
  col_amount :: int
  col_state :: int
  col_create_time :: int
  col_perform_time :: int
  col_cancel_time :: int
  col_reason :: "int option"

text \<open>The \<^verbatim>\<open>tx\<close> object of the handlers; \<open>account\<close> is the text of the donation id.\<close>

record tx =
  paycomTxId :: string
  account :: string
  amount :: int
  state :: int
  create_time :: jsval
  perform_time :: jsval
  cancel_time :: jsval
  reason :: "int option"

text \<open>
  \<^verbatim>\<open>Date.now()\<close> is read several times inside one handler and nothing in the code makes
  two readings equal, so the clock is a sequence of readings and a counter of how many
  were consumed.
\<close>

record world =
  donations :: "donation list"
  transactions :: "tx_row list"
  clock :: "nat \<Rightarrow> int"
  ticks :: nat

text \<open>The payload of \<^verbatim>\<open>txResponse\<close>; \<^verbatim>\<open>r_account\<close> is the value under the account field.\<close>

record snapshot =
  r_transaction :: string
  r_account :: string
  r_create_time :: jsval
  r_perform_time :: jsval
  r_cancel_time :: jsval
  r_amount :: int
  r_state :: int
  r_reason :: "int option"

datatype err = AUTH | AMOUNT | NOT_FOUND | CANNOT_PERFORM | ACCOUNT | METHOD

fun ERR_code :: "err \<Rightarrow> int" where
  "ERR_code AUTH = -32504"
| "ERR_code AMOUNT = -31001"
| "ERR_code NOT_FOUND = -31003"
| "ERR_code CANNOT_PERFORM = -31008"
| "ERR_code ACCOUNT = -31050"
| "ERR_code METHOD = -32601"

datatype result = Allow bool | Transaction snapshot | Transactions "snapshot list"

datatype response = ok result | fail err

definition TRANSACTION_TTL_MS :: int where
  "TRANSACTION_TTL_MS = 12 * 60 * 60 * 1000"

definition now :: "world \<Rightarrow> int \<times> world" where
  "now w = (clock w (ticks w), w\<lparr>ticks := Suc (ticks w)\<rparr>)"

section \<open>DB helpers\<close>

text \<open>How the \<^verbatim>\<open>UUID\<close> type reads a text: upper-case hexadecimal digits count as lower-case.\<close>

definition lower_hex :: "char \<Rightarrow> char" where
  "lower_hex c =
     (if c = CHR ''A'' then CHR ''a'' else if c = CHR ''B'' then CHR ''b''
      else if c = CHR ''C'' then CHR ''c'' else if c = CHR ''D'' then CHR ''d''
      else if c = CHR ''E'' then CHR ''e'' else if c = CHR ''F'' then CHR ''f'' else c)"

definition uuid_in :: "string \<Rightarrow> uuid" where
  "uuid_in s = map lower_hex s"

text \<open>
  \<^verbatim>\<open>SELECT ... FROM donations WHERE id = $1\<close> compares UUID values. Only \<^verbatim>\<open>amount\<close> and
  \<^verbatim>\<open>state\<close> of the result are read by the handlers.
\<close>

definition getDonation :: "string \<Rightarrow> world \<Rightarrow> donation option" where
  "getDonation donationId w = find (\<lambda>d. d_id d = uuid_in donationId) (donations w)"

text \<open>
  \<^verbatim>\<open>INSERT ... ON CONFLICT (id) DO NOTHING\<close>; the column default of \<^verbatim>\<open>created_at\<close> is the
  database's own time, passed in here.
\<close>

definition createDonation :: "string \<Rightarrow> int \<Rightarrow> int \<Rightarrow> world \<Rightarrow> world" where
  "createDonation donationId amt created w =
     (case getDonation donationId w of
        Some d \<Rightarrow> w
      | None \<Rightarrow>
          w\<lparr>donations := donations w @
            [\<lparr>d_id = uuid_in donationId, d_amount = amt, d_state = 0,
              d_created_at = created\<rparr>]\<rparr>)"

text \<open>
  The parameter list of \<^verbatim>\<open>saveTransaction\<close> as the database reads it, and the object
  literal that \<^verbatim>\<open>getTransaction\<close> and \<^verbatim>\<open>listTransactions\<close> build from a row.
\<close>

definition toRow :: "tx \<Rightarrow> tx_row" where
  "toRow t =
     \<lparr>col_paycom_id = paycomTxId t, col_donation_id = uuid_in (account t),
      col_amount = amount t, col_state = state t, col_create_time = num_of (create_time t),
      col_perform_time = num_of (perform_time t), col_cancel_time = num_of (cancel_time t),
      col_reason = reason t\<rparr>"

definition fromRow :: "tx_row \<Rightarrow> tx" where
  "fromRow r =
     \<lparr>paycomTxId = col_paycom_id r, account = col_donation_id r, amount = col_amount r,
      state = col_state r, create_time = JsString (col_create_time r),
      perform_time = JsString (col_perform_time r),
      cancel_time = JsString (col_cancel_time r), reason = col_reason r\<rparr>"

definition getTransaction :: "string \<Rightarrow> world \<Rightarrow> tx option" where
  "getTransaction paycomId w =
     map_option fromRow (find (\<lambda>r. col_paycom_id r = paycomId) (transactions w))"

text \<open>
  \<^verbatim>\<open>INSERT ... ON CONFLICT (paycom_id) DO UPDATE SET state, perform_time, cancel_time,
  reason\<close>: a row with the key takes the four columns of the proposed row, otherwise the
  proposed row is inserted. (The only inserting caller, \<^verbatim>\<open>handleCreate\<close>, has looked the
  donation up before, so the foreign key of \<^verbatim>\<open>donation_id\<close> is not a separate branch.)
\<close>

definition saveTransaction :: "tx \<Rightarrow> world \<Rightarrow> world" where
  "saveTransaction t w =
     (case find (\<lambda>r. col_paycom_id r = paycomTxId t) (transactions w) of
        Some r0 \<Rightarrow>
          w\<lparr>transactions :=
              map (\<lambda>r. if col_paycom_id r = paycomTxId t
                        then r\<lparr>col_state := state t,
                               col_perform_time := num_of (perform_time t),
                               col_cancel_time := num_of (cancel_time t),
                               col_reason := reason t\<rparr>
                        else r)
                  (transactions w)\<rparr>
      | None \<Rightarrow> w\<lparr>transactions := transactions w @ [toRow t]\<rparr>)"

definition setDonationState :: "string \<Rightarrow> int \<Rightarrow> world \<Rightarrow> world" where
  "setDonationState donationId s w =
     w\<lparr>donations :=
         map (\<lambda>d. if d_id d = uuid_in donationId then d\<lparr>d_state := s\<rparr> else d) (donations w)\<rparr>"

text \<open>
  \<^verbatim>\<open>from || 0\<close> and \<^verbatim>\<open>to || now()\<close>: an absent parameter and the number 0 are both falsy,
  and the clock is read only when \<^verbatim>\<open>to\<close> is. \<^verbatim>\<open>ORDER BY create_time ASC\<close> is a sort by that
  column; rows of equal key stay in table order.
\<close>

fun falsy :: "int option \<Rightarrow> bool" where
  "falsy None = True"
| "falsy (Some n) = (n = 0)"

definition listTransactions :: "int option \<Rightarrow> int option \<Rightarrow> world \<Rightarrow> tx list \<times> world" where
  "listTransactions from to w =
     (let lo = (if falsy from then 0 else the from);
          (hi, w1) = (if falsy to then now w else (the to, w))
      in (map fromRow
            (sort_key col_create_time
               (filter (\<lambda>r. lo \<le> col_create_time r \<and> col_create_time r \<le> hi)
                  (transactions w1))), w1))"

section \<open>JSON-RPC helpers\<close>

definition txResponse :: "tx \<Rightarrow> snapshot" where
  "txResponse t =
     \<lparr>r_transaction = paycomTxId t, r_account = account t, r_create_time = create_time t,
      r_perform_time = perform_time t, r_cancel_time = cancel_time t, r_amount = amount t,
      r_state = state t, r_reason = reason t\<rparr>"

text \<open>
  \<^verbatim>\<open>tx.create_time + TRANSACTION_TTL_MS\<close>, as the number that \<^verbatim>\<open><\<close> then compares with
  \<^verbatim>\<open>now()\<close>. On a number \<^verbatim>\<open>+\<close> adds. On a string it concatenates: the result is the
  decimal text of \<open>create_time\<close> followed by the eight digits of 43200000, which \<^verbatim>\<open><\<close>
  converts back to a number.
\<close>

fun plus_TTL :: "jsval \<Rightarrow> int" where
  "plus_TTL (JsNumber c) = c + TRANSACTION_TTL_MS"
| "plus_TTL (JsString c) =
     (if 0 \<le> c then c * 100000000 + TRANSACTION_TTL_MS
      else c * 100000000 - TRANSACTION_TTL_MS)"

definition isExpired :: "tx \<Rightarrow> world \<Rightarrow> bool \<times> world" where
  "isExpired t w = (let (n, w1) = now w in (plus_TTL (create_time t) < n, w1))"

text \<open>Every caller passes a transaction it has found, so the \<^verbatim>\<open>!tx\<close> test has no branch here.\<close>

definition autoCancelExpired :: "tx \<Rightarrow> world \<Rightarrow> tx \<times> world" where
  "autoCancelExpired t w =
     (if state t \<noteq> 1 then (t, w)
      else (let (n, w1) = now w;
                t1 = t\<lparr>state := -1, cancel_time := JsNumber n, reason := Some 4\<rparr>
            in (t1, saveTransaction t1 w1)))"

text \<open>
  The line \<^verbatim>\<open>if (isExpired(tx) && tx.state === 1) tx = await autoCancelExpired(tx)\<close> that four
  handlers share: \<^verbatim>\<open>isExpired\<close> is evaluated first and always reads the clock.
\<close>

definition expire :: "tx \<Rightarrow> world \<Rightarrow> tx \<times> world" where
  "expire t w =
     (let (e, w1) = isExpired t w
      in if e \<and> state t = 1 then autoCancelExpired t w1 else (t, w1))"

section \<open>Merchant method handlers\<close>

definition handleCheckPerform :: "string \<Rightarrow> int \<Rightarrow> world \<Rightarrow> response \<times> world" where
  "handleCheckPerform donationId amt w =
     (case getDonation donationId w of
        None \<Rightarrow> (fail ACCOUNT, w)
      | Some d \<Rightarrow>
          if d_amount d \<noteq> amt then (fail AMOUNT, w)
          else (ok (Allow True), w))"

text \<open>\<^verbatim>\<open>tx.account === donationId\<close> compares the text read back with the text of the call.\<close>

definition handleCreate :: "string \<Rightarrow> int \<Rightarrow> string \<Rightarrow> world \<Rightarrow> response \<times> world" where
  "handleCreate donationId amt paycomId w =
     (case getDonation donationId w of
        None \<Rightarrow> (fail ACCOUNT, w)
      | Some d \<Rightarrow>
          if d_amount d \<noteq> amt then (fail AMOUNT, w)
          else if d_state d = 2 then (fail CANNOT_PERFORM, w)
          else (case getTransaction paycomId w of
                  Some t0 \<Rightarrow>
                    if account t0 = donationId \<and> amount t0 = amt
                    then (let (t1, w1) = expire t0 w
                          in (ok (Transaction (txResponse t1)), w1))
                    else (fail CANNOT_PERFORM, w)
                | None \<Rightarrow>
                    (let (n, w1) = now w;
                         t1 = \<lparr>paycomTxId = paycomId, account = donationId, amount = amt,
                               state = 1, create_time = JsNumber n,
                               perform_time = JsNumber 0, cancel_time = JsNumber 0,
                               reason = None\<rparr>;
                         w2 = saveTransaction t1 w1;
                         w3 = setDonationState donationId 1 w2
                     in (ok (Transaction (txResponse t1)), w3))))"

definition handlePerform :: "string \<Rightarrow> world \<Rightarrow> response \<times> world" where
  "handlePerform paycomId w =
     (case getTransaction paycomId w of
        None \<Rightarrow> (fail NOT_FOUND, w)
      | Some t0 \<Rightarrow>
          (let (t1, w1) = expire t0 w
           in if state t1 = -1 \<or> state t1 = -2 then (fail CANNOT_PERFORM, w1)
              else if state t1 = 2 then (ok (Transaction (txResponse t1)), w1)
              else (let (n, w2) = now w1;
                        t2 = t1\<lparr>state := 2, perform_time := JsNumber n\<rparr>;
                        w3 = saveTransaction t2 w2;
                        w4 = setDonationState (account t2) 2 w3
                    in (ok (Transaction (txResponse t2)), w4))))"

definition handleCancel :: "string \<Rightarrow> int \<Rightarrow> world \<Rightarrow> response \<times> world" where
  "handleCancel paycomId rsn w =
     (case getTransaction paycomId w of
        None \<Rightarrow> (fail NOT_FOUND, w)
      | Some t0 \<Rightarrow>
          (let (t1, w1) = expire t0 w
           in if state t1 = -1 \<or> state t1 = -2 then (ok (Transaction (txResponse t1)), w1)
              else (let (n, w2) = now w1;
                        t2 = t1\<lparr>state := (if state t1 = 2 then -2 else -1),
                                cancel_time := JsNumber n, reason := Some rsn\<rparr>;
                        w3 = saveTransaction t2 w2;
                        w4 = setDonationState (account t2) (state t2) w3
                    in (ok (Transaction (txResponse t2)), w4))))"

definition handleCheck :: "string \<Rightarrow> world \<Rightarrow> response \<times> world" where
  "handleCheck paycomId w =
     (case getTransaction paycomId w of
        None \<Rightarrow> (fail NOT_FOUND, w)
      | Some t0 \<Rightarrow>
          (let (t1, w1) = expire t0 w
           in (ok (Transaction (txResponse t1)), w1)))"

definition handleStatement :: "int option \<Rightarrow> int option \<Rightarrow> world \<Rightarrow> response \<times> world" where
  "handleStatement from to w =
     (let (items, w1) = listTransactions from to w
      in (ok (Transactions (map txResponse items)), w1))"

section \<open>Merchant API dispatch\<close>

text \<open>
  A request is the method with the parameters the dispatcher extracts for it; the
  cancellation reason may be absent (\<^verbatim>\<open>params?.reason ?? 0\<close>), and so may the two bounds
  of a statement. The boolean is the outcome of \<^verbatim>\<open>requirePaymeAuth\<close>.
\<close>

datatype request =
    CheckPerformTransaction string int
  | CreateTransaction string int string
  | PerformTransaction string
  | CancelTransaction string "int option"
  | CheckTransaction string
  | GetStatement "int option" "int option"
  | OtherMethod string

fun merchantHandler :: "bool \<Rightarrow> request \<Rightarrow> world \<Rightarrow> response \<times> world" where
  "merchantHandler False req w = (fail AUTH, w)"
| "merchantHandler True (CheckPerformTransaction donationId amt) w =
     handleCheckPerform donationId amt w"
| "merchantHandler True (CreateTransaction donationId amt paycomId) w =
     handleCreate donationId amt paycomId w"
| "merchantHandler True (PerformTransaction paycomId) w = handlePerform paycomId w"
| "merchantHandler True (CancelTransaction paycomId rsn) w =
     handleCancel paycomId (case rsn of None \<Rightarrow> 0 | Some c \<Rightarrow> c) w"
| "merchantHandler True (CheckTransaction paycomId) w = handleCheck paycomId w"
| "merchantHandler True (GetStatement from to) w = handleStatement from to w"
| "merchantHandler True (OtherMethod m) w = (fail METHOD, w)"

text \<open>A sequence of calls, each with its authentication outcome, served one after another.\<close>

fun run :: "(bool \<times> request) list \<Rightarrow> world \<Rightarrow> world" where
  "run [] w = w"
| "run ((auth, req) # rest) w = run rest (snd (merchantHandler auth req w))"

section \<open>Example worlds\<close>

text \<open>
  Two donations of 1000000 tiyin and no transaction yet. \<open>clock0\<close> advances by one
  millisecond per reading; \<open>clock_late\<close> does so for four readings and then jumps past
  the twelve hours.
\<close>

definition clock0 :: "nat \<Rightarrow> int" where
  "clock0 n = 1000 + int n"

definition clock_late :: "nat \<Rightarrow> int" where
  "clock_late n = (if n < 4 then 1000 + int n else 50000000 + int n)"

definition world0 :: world where
  "world0 =
     \<lparr>donations = [\<lparr>d_id = ''d1'', d_amount = 1000000, d_state = 0, d_created_at = 900\<rparr>,
                   \<lparr>d_id = ''d2'', d_amount = 1000000, d_state = 0, d_created_at = 950\<rparr>],
      transactions = [], clock = clock0, ticks = 0\<rparr>"

definition world_created :: world where
  "world_created = run [(True, CreateTransaction ''d1'' 1000000 ''tx1'')] world0"

definition world_performed :: world where
  "world_performed = run [(True, PerformTransaction ''tx1'')] world_created"


definition world_stale :: world where
  "world_stale =
     run [(True, CreateTransaction ''d1'' 1000000 ''tx1''), (True, CheckTransaction ''tx1''),
          (True, CheckTransaction ''tx1''), (True, CheckTransaction ''tx1'')]
       (world0\<lparr>clock := clock_late\<rparr>)"

definition world_two :: world where
  "world_two =
     run [(True, CreateTransaction ''d1'' 1000000 ''tx1''),
          (True, CreateTransaction ''d1'' 1000000 ''tx2''),
          (True, PerformTransaction ''tx2'')]
       (world0\<lparr>clock := clock_late\<rparr>)"

section \<open>Predicates for the invariants\<close>

text \<open>
  \<open>tx_ok\<close> is the relation between a row's state and its \<open>perform_time\<close>. \<open>one_write\<close>
  describes what a single call may do: it keeps the clock's readings, and either leaves
  the transactions table alone or saves one transaction, which is a new Created one, or
  an existing one after the expiry, perform or cancel transition.
\<close>

definition tx_ok :: "tx_row \<Rightarrow> bool" where
  "tx_ok r \<longleftrightarrow>
     (col_state r = 1 \<or> col_state r = 2 \<or> col_state r = -1 \<or> col_state r = -2) \<and>
     (col_perform_time r \<noteq> 0) = (col_state r = 2 \<or> col_state r = -2)"

definition one_write :: "world \<Rightarrow> world \<Rightarrow> bool" where
  "one_write w w' \<longleftrightarrow>
     clock w' = clock w \<and>
     (transactions w' = transactions w \<or>
      (\<exists>t. transactions w' = transactions (saveTransaction t w) \<and>
         (case getTransaction (paycomTxId t) w of
            None \<Rightarrow> state t = 1 \<and> num_of (perform_time t) = 0
          | Some t0 \<Rightarrow>
              (state t0 = 1 \<and> state t = -1 \<and> perform_time t = perform_time t0 \<or>
               state t0 \<noteq> -1 \<and> state t0 \<noteq> -2 \<and> state t0 \<noteq> 2 \<and> state t = 2 \<and>
                 (\<exists>n. perform_time t = JsNumber (clock w n)) \<or>
               state t0 \<noteq> -1 \<and> state t0 \<noteq> -2 \<and>
                 state t = (if state t0 = 2 then -2 else -1) \<and>
                 perform_time t = perform_time t0))))"

section \<open>Lemmas about the store\<close>

lemmas eval_defs = handleCreate_def handlePerform_def handleCancel_def handleCheck_def
  handleCheckPerform_def handleStatement_def listTransactions_def expire_def isExpired_def
  autoCancelExpired_def now_def saveTransaction_def setDonationState_def getTransaction_def
  getDonation_def txResponse_def TRANSACTION_TTL_MS_def fromRow_def toRow_def uuid_in_def
  lower_hex_def Let_def

lemma uuid_in_idem [simp]: "uuid_in (uuid_in s) = uuid_in s"
  by (simp add: uuid_in_def lower_hex_def)

lemma find_map_upd:
  "find P xs = Some x \<Longrightarrow> (\<And>y. P (f y) = P y) \<Longrightarrow> find P (map f xs) = Some (f x)"
  by (induction xs) (auto split: if_splits)

lemma find_key: "find P xs = Some x \<Longrightarrow> P x"
  by (induction xs) (auto split: if_splits)

lemma find_mem: "find P xs = Some x \<Longrightarrow> x \<in> set xs"
  by (induction xs) (auto split: if_splits)

lemma find_app:
  "find P (xs @ ys) = (case find P xs of None \<Rightarrow> find P ys | Some x \<Rightarrow> Some x)"
  by (induction xs) auto


lemma getTransaction_ticks [simp]: "getTransaction k (w\<lparr>ticks := n\<rparr>) = getTransaction k w"
  by (simp add: getTransaction_def)

lemma getDonation_ticks [simp]: "getDonation k (w\<lparr>ticks := n\<rparr>) = getDonation k w"
  by (simp add: getDonation_def)

lemma getTransaction_key: "getTransaction k w = Some r \<Longrightarrow> paycomTxId r = k"
  by (auto simp: getTransaction_def fromRow_def dest: find_key)

lemma getTransaction_row:
  "getTransaction k w = Some r \<Longrightarrow>
   \<exists>x \<in> set (transactions w). col_paycom_id x = k \<and> fromRow x = r"
  by (auto simp: getTransaction_def dest: find_key find_mem)



lemma saveTransaction_frame [simp]:
  "donations (saveTransaction t w) = donations w"
  "clock (saveTransaction t w) = clock w"
  "ticks (saveTransaction t w) = ticks w"
  by (simp_all add: saveTransaction_def split: option.splits)

lemma setDonationState_frame [simp]:
  "transactions (setDonationState d s w) = transactions w"
  "clock (setDonationState d s w) = clock w"
  "ticks (setDonationState d s w) = ticks w"
  by (simp_all add: setDonationState_def)

lemma getTransaction_setDonationState [simp]:
  "getTransaction k (setDonationState d s w) = getTransaction k w"
  by (simp add: getTransaction_def)

lemma getDonation_saveTransaction [simp]:
  "getDonation d (saveTransaction t w) = getDonation d w"
  by (simp add: getDonation_def)

lemma transactions_save_ticks [simp]:
  "transactions (saveTransaction t (w\<lparr>ticks := n\<rparr>)) = transactions (saveTransaction t w)"
  by (simp add: saveTransaction_def split: option.splits)

text \<open>
  The update path: what is read back afterwards is the old object with four fields
  replaced, the two times as the text of what was stored.
\<close>

lemma getTransaction_save_same:
  assumes "getTransaction k w = Some r" and "paycomTxId t = k"
  shows "getTransaction k (saveTransaction t w) =
     Some (r\<lparr>state := state t, perform_time := JsString (num_of (perform_time t)),
             cancel_time := JsString (num_of (cancel_time t)), reason := reason t\<rparr>)"
proof -
  from assms(1) obtain x where x: "find (\<lambda>r. col_paycom_id r = k) (transactions w) = Some x"
    and r: "r = fromRow x"
    by (auto simp: getTransaction_def)
  let ?f = "\<lambda>r. if col_paycom_id r = paycomTxId t
                 then r\<lparr>col_state := state t, col_perform_time := num_of (perform_time t),
                        col_cancel_time := num_of (cancel_time t), col_reason := reason t\<rparr>
                 else r"
  have xk: "col_paycom_id x = k" using x by (auto dest: find_key)
  have "find (\<lambda>r. col_paycom_id r = k) (map ?f (transactions w)) = Some (?f x)"
    using x by (rule find_map_upd) simp
  then show ?thesis using assms(2) x xk r
    by (simp add: saveTransaction_def getTransaction_def fromRow_def)
qed

lemma getTransaction_save_other:
  assumes "paycomTxId t \<noteq> k"
  shows "getTransaction k (saveTransaction t w) = getTransaction k w"
proof (cases "find (\<lambda>r. col_paycom_id r = paycomTxId t) (transactions w)")
  case None
  then show ?thesis using assms
    by (simp add: saveTransaction_def getTransaction_def find_app toRow_def
        split: option.splits)
next
  case (Some r0)
  let ?f = "\<lambda>r. if col_paycom_id r = paycomTxId t
                 then r\<lparr>col_state := state t, col_perform_time := num_of (perform_time t),
                        col_cancel_time := num_of (cancel_time t), col_reason := reason t\<rparr>
                 else r"
  have e: "find (\<lambda>r. col_paycom_id r = k) (map ?f xs) = find (\<lambda>r. col_paycom_id r = k) xs"
    for xs
    using assms by (induction xs) auto
  show ?thesis using Some by (simp add: saveTransaction_def getTransaction_def e)
qed

lemma getTransaction_save_new:
  "getTransaction (paycomTxId t) w = None \<Longrightarrow>
   getTransaction (paycomTxId t) (saveTransaction t w) = Some (fromRow (toRow t))"
  by (simp add: saveTransaction_def getTransaction_def find_app toRow_def)


text \<open>The shared expiry line, with the clock readings written out.\<close>

lemma expire_eq:
  "expire t w =
     (if plus_TTL (create_time t) < clock w (ticks w) \<and> state t = 1
      then (t\<lparr>state := -1, cancel_time := JsNumber (clock w (Suc (ticks w))), reason := Some 4\<rparr>,
            saveTransaction
              (t\<lparr>state := -1, cancel_time := JsNumber (clock w (Suc (ticks w))),
                 reason := Some 4\<rparr>)
              (w\<lparr>ticks := Suc (Suc (ticks w))\<rparr>))
      else (t, w\<lparr>ticks := Suc (ticks w)\<rparr>))"
  by (simp add: expire_def isExpired_def autoCancelExpired_def now_def Let_def)

text \<open>
  A time that is read back is a string, and for a string of a non-negative time the
  comparison of \<open>isExpired\<close> is with a hundred million times that time: an elapsed TTL
  does not make it true, and a TTL that has not elapsed never does.
\<close>

lemma plus_TTL_text: "0 \<le> c \<Longrightarrow> c + TRANSACTION_TTL_MS \<le> plus_TTL (JsString c)"
  by (simp add: TRANSACTION_TTL_MS_def)

lemma expire_fresh:
  assumes "state t \<noteq> 1 \<or>
           0 \<le> num_of (create_time t) \<and> clock w (ticks w) \<le> num_of (create_time t) + TRANSACTION_TTL_MS"
  shows "expire t w = (t, w\<lparr>ticks := Suc (ticks w)\<rparr>)"
proof (cases "state t = 1")
  case False
  then show ?thesis by (simp add: expire_eq)
next
  case True
  then have c: "0 \<le> num_of (create_time t)"
    "clock w (ticks w) \<le> num_of (create_time t) + TRANSACTION_TTL_MS"
    using assms by simp_all
  have "num_of (create_time t) + TRANSACTION_TTL_MS \<le> plus_TTL (create_time t)"
    using c(1) by (cases "create_time t") (simp_all add: TRANSACTION_TTL_MS_def)
  then have "\<not> plus_TTL (create_time t) < clock w (ticks w)" using c(2) by simp
  then show ?thesis by (simp add: expire_eq)
qed

subsection \<open>The example worlds, evaluated\<close>

lemma world_created_eq:
  "world_created =
     \<lparr>donations = [\<lparr>d_id = ''d1'', d_amount = 1000000, d_state = 1, d_created_at = 900\<rparr>,
                   \<lparr>d_id = ''d2'', d_amount = 1000000, d_state = 0, d_created_at = 950\<rparr>],
      transactions = [\<lparr>col_paycom_id = ''tx1'', col_donation_id = ''d1'', col_amount = 1000000,
                       col_state = 1, col_create_time = 1000, col_perform_time = 0,
                       col_cancel_time = 0, col_reason = None\<rparr>],
      clock = clock0, ticks = Suc 0\<rparr>"
  by (simp add: world_created_def world0_def eval_defs clock0_def)

lemma world_performed_eq:
  "world_performed =
     \<lparr>donations = [\<lparr>d_id = ''d1'', d_amount = 1000000, d_state = 2, d_created_at = 900\<rparr>,
                   \<lparr>d_id = ''d2'', d_amount = 1000000, d_state = 0, d_created_at = 950\<rparr>],
      transactions = [\<lparr>col_paycom_id = ''tx1'', col_donation_id = ''d1'', col_amount = 1000000,
                       col_state = 2, col_create_time = 1000, col_perform_time = 1002,
                       col_cancel_time = 0, col_reason = None\<rparr>],
      clock = clock0, ticks = 3\<rparr>"
  by (simp add: world_performed_def world_created_eq eval_defs clock0_def numeral_3_eq_3)


lemma world_stale_eq:
  "world_stale =
     \<lparr>donations = [\<lparr>d_id = ''d1'', d_amount = 1000000, d_state = 1, d_created_at = 900\<rparr>,
                   \<lparr>d_id = ''d2'', d_amount = 1000000, d_state = 0, d_created_at = 950\<rparr>],
      transactions = [\<lparr>col_paycom_id = ''tx1'', col_donation_id = ''d1'', col_amount = 1000000,
                       col_state = 1, col_create_time = 1000, col_perform_time = 0,
                       col_cancel_time = 0, col_reason = None\<rparr>],
      clock = clock_late, ticks = 4\<rparr>"
  by (simp add: world_stale_def world0_def eval_defs clock_late_def eval_nat_numeral)

lemma world_two_eq:
  "world_two =
     \<lparr>donations = [\<lparr>d_id = ''d1'', d_amount = 1000000, d_state = 2, d_created_at = 900\<rparr>,
                   \<lparr>d_id = ''d2'', d_amount = 1000000, d_state = 0, d_created_at = 950\<rparr>],
      transactions = [\<lparr>col_paycom_id = ''tx1'', col_donation_id = ''d1'', col_amount = 1000000,
                       col_state = 1, col_create_time = 1000, col_perform_time = 0,
                       col_cancel_time = 0, col_reason = None\<rparr>,
                      \<lparr>col_paycom_id = ''tx2'', col_donation_id = ''d1'', col_amount = 1000000,
                       col_state = 2, col_create_time = 1001, col_perform_time = 1003,
                       col_cancel_time = 0, col_reason = None\<rparr>],
      clock = clock_late, ticks = 4\<rparr>"
  by (simp add: world_two_def world0_def eval_defs clock_late_def eval_nat_numeral)

lemma tx1_created:
  "getTransaction ''tx1'' world_created =
     Some \<lparr>paycomTxId = ''tx1'', account = ''d1'', amount = 1000000, state = 1,
           create_time = JsString 1000, perform_time = JsString 0, cancel_time = JsString 0,
           reason = None\<rparr>"
  by (simp add: world_created_eq getTransaction_def fromRow_def)

lemma tx1_performed:
  "getTransaction ''tx1'' world_performed =
     Some \<lparr>paycomTxId = ''tx1'', account = ''d1'', amount = 1000000, state = 2,
           create_time = JsString 1000, perform_time = JsString 1002,
           cancel_time = JsString 0, reason = None\<rparr>"
  by (simp add: world_performed_eq getTransaction_def fromRow_def)

lemma tx1_stale:
  "getTransaction ''tx1'' world_stale =
     Some \<lparr>paycomTxId = ''tx1'', account = ''d1'', amount = 1000000, state = 1,
           create_time = JsString 1000, perform_time = JsString 0, cancel_time = JsString 0,
           reason = None\<rparr>"
  by (simp add: world_stale_eq getTransaction_def fromRow_def)

section \<open>Error precedence\<close>

text \<open>
  Claim C5. In \<open>handleCreate\<close> and \<open>handleCheckPerform\<close> an unknown donation gives the
  account error and a known donation of another amount gives the amount error, whatever
  the transactions table holds for the external id; in \<open>handlePerform\<close>, \<open>handleCancel\<close>
  and \<open>handleCheck\<close> a missing transaction gives the not-found error before any state of a
  transaction is looked at. In each case nothing is written and the clock is not read.
\<close>

theorem error_precedence:
  "(getDonation donationId w = None \<longrightarrow>
      handleCreate donationId amt paycomId w = (fail ACCOUNT, w) \<and>
      handleCheckPerform donationId amt w = (fail ACCOUNT, w)) \<and>
   (\<forall>d. getDonation donationId w = Some d \<and> d_amount d \<noteq> amt \<longrightarrow>
      handleCreate donationId amt paycomId w = (fail AMOUNT, w) \<and>
      handleCheckPerform donationId amt w = (fail AMOUNT, w)) \<and>
   (getTransaction paycomId w = None \<longrightarrow>
      handlePerform paycomId w = (fail NOT_FOUND, w) \<and>
      handleCancel paycomId rsn w = (fail NOT_FOUND, w) \<and>
      handleCheck paycomId w = (fail NOT_FOUND, w))"
  by (simp add: handleCreate_def handleCheckPerform_def handlePerform_def handleCancel_def
      handleCheck_def)

theorem error_precedence_witness:
  "handleCreate ''d9'' 1000000 ''tx1'' world_created = (fail ACCOUNT, world_created) \<and>
   handleCheckPerform ''d9'' 1000000 world_created = (fail ACCOUNT, world_created) \<and>
   handleCreate ''d1'' 5 ''tx1'' world_created = (fail AMOUNT, world_created) \<and>
   handleCheckPerform ''d1'' 5 world_created = (fail AMOUNT, world_created) \<and>
   handlePerform ''tx9'' world_created = (fail NOT_FOUND, world_created) \<and>
   handleCancel ''tx9'' 3 world_created = (fail NOT_FOUND, world_created) \<and>
   handleCheck ''tx9'' world_created = (fail NOT_FOUND, world_created)"
proof -
  have a: "getDonation ''d9'' world_created = None"
    by (simp add: world_created_eq getDonation_def uuid_in_def lower_hex_def)
  have b: "getDonation ''d1'' world_created =
      Some \<lparr>d_id = ''d1'', d_amount = 1000000, d_state = 1, d_created_at = 900\<rparr>"
    by (simp add: world_created_eq getDonation_def uuid_in_def lower_hex_def)
  have c: "getTransaction ''tx9'' world_created = None"
    by (simp add: world_created_eq getTransaction_def)
  show ?thesis
    using a b c
      error_precedence [of "''d9''" world_created 1000000 "''tx1''" 3]
      error_precedence [of "''d1''" world_created 5 "''tx1''" 3]
      error_precedence [of "''d1''" world_created 5 "''tx9''" 3]
    by simp
qed

section \<open>Conflicting CreateTransaction\<close>

text \<open>
  Claim C6 (as amended). A \<open>handleCreate\<close> call whose external id has a transaction of
  another donation id or another amount fails and leaves the whole store as it was: with
  the account error when the requested donation is unknown, with the amount error when
  the requested amount is not that donation's amount, and with cannot-perform otherwise.
\<close>

theorem create_conflict:
  assumes "getTransaction paycomId w = Some t0"
    and "account t0 \<noteq> donationId \<or> amount t0 \<noteq> amt"
  shows
   "snd (handleCreate donationId amt paycomId w) = w \<and>
    (getDonation donationId w = None \<longrightarrow>
       fst (handleCreate donationId amt paycomId w) = fail ACCOUNT) \<and>
    (\<forall>d. getDonation donationId w = Some d \<and> d_amount d \<noteq> amt \<longrightarrow>
       fst (handleCreate donationId amt paycomId w) = fail AMOUNT) \<and>
    (\<forall>d. getDonation donationId w = Some d \<and> d_amount d = amt \<longrightarrow>
       fst (handleCreate donationId amt paycomId w) = fail CANNOT_PERFORM)"
  using assms by (auto simp add: handleCreate_def split: option.splits)

theorem create_conflict_witness:
  "handleCreate ''d2'' 1000000 ''tx1'' world_created = (fail CANNOT_PERFORM, world_created) \<and>
   handleCreate ''d1'' 500 ''tx1'' world_created = (fail AMOUNT, world_created) \<and>
   handleCreate ''d7'' 1000000 ''tx1'' world_created = (fail ACCOUNT, world_created)"
proof -
  note c = tx1_created
  have d: "getDonation ''d2'' world_created =
      Some \<lparr>d_id = ''d2'', d_amount = 1000000, d_state = 0, d_created_at = 950\<rparr>"
    "getDonation ''d1'' world_created =
      Some \<lparr>d_id = ''d1'', d_amount = 1000000, d_state = 1, d_created_at = 900\<rparr>"
    "getDonation ''d7'' world_created = None"
    by (simp_all add: world_created_eq getDonation_def uuid_in_def lower_hex_def)
  have "handleCreate ''d2'' 1000000 ''tx1'' world_created = (fail CANNOT_PERFORM, world_created)"
    using create_conflict [OF c, of "''d2''" 1000000] d(1)
    by (simp add: prod_eq_iff)
  moreover have "handleCreate ''d1'' 500 ''tx1'' world_created = (fail AMOUNT, world_created)"
    using create_conflict [OF c, of "''d1''" 500] d(2)
    by (simp add: prod_eq_iff)
  moreover have "handleCreate ''d7'' 1000000 ''tx1'' world_created = (fail ACCOUNT, world_created)"
    using create_conflict [OF c, of "''d7''" 1000000] d(3)
    by (simp add: prod_eq_iff)
  ultimately show ?thesis by blast
qed

theorem conflicting_amount_counterexample:
  "getTransaction ''tx1'' world_created =
     Some \<lparr>paycomTxId = ''tx1'', account = ''d1'', amount = 1000000, state = 1,
           create_time = JsString 1000, perform_time = JsString 0, cancel_time = JsString 0,
           reason = None\<rparr> \<and>
   fst (handleCreate ''d1'' 2000000 ''tx1'' world_created) = fail AMOUNT \<and>
   fst (handleCreate ''d1'' 2000000 ''tx1'' world_created) \<noteq> fail CANNOT_PERFORM"
  by (simp add: world_created_eq getTransaction_def handleCreate_def getDonation_def
      fromRow_def uuid_in_def lower_hex_def)

section \<open>CheckPerformTransaction and the donation state\<close>




section \<open>GetStatement\<close>

text \<open>
  Claim C9 (as amended). \<open>handleStatement\<close> returns the snapshots of exactly the
  transactions whose \<open>create_time\<close> lies between the lower and the upper bound, both
  included, in ascending order of \<open>create_time\<close>. The lower bound is \<open>from\<close>, or 0 when
  it is absent; the upper bound is \<open>to\<close>, or the clock reading of the call when \<open>to\<close> is
  absent or 0. Nothing is written; the clock is read only for the default.
\<close>

theorem statement_range:
  "(let lo = (case from of None \<Rightarrow> 0 | Some f \<Rightarrow> f);
        hi = (case to of None \<Rightarrow> clock w (ticks w)
              | Some t \<Rightarrow> if t = 0 then clock w (ticks w) else t)
    in \<exists>items.
         handleStatement from to w =
           (ok (Transactions items),
            w\<lparr>ticks := (if falsy to then Suc (ticks w) else ticks w)\<rparr>) \<and>
         mset items =
           image_mset (\<lambda>r. txResponse (fromRow r))
             (filter_mset (\<lambda>r. lo \<le> col_create_time r \<and> col_create_time r \<le> hi)
                (mset (transactions w))) \<and>
         sorted (map (\<lambda>s. num_of (r_create_time s)) items))"
proof -
  have rc: "(\<lambda>s. num_of (r_create_time s)) \<circ> (txResponse \<circ> fromRow) = col_create_time"
    by (rule ext) (simp add: txResponse_def fromRow_def)
  have im: "txResponse \<circ> fromRow = (\<lambda>r. txResponse (fromRow r))"
    by (simp add: comp_def)
  show ?thesis
    by (cases "from"; cases to)
      (simp_all add: handleStatement_def listTransactions_def now_def Let_def rc,
       simp_all add: im)
qed

theorem statement_range_witness:
  "handleStatement (Some 1001) (Some 2000) world_two =
     (ok (Transactions
        [\<lparr>r_transaction = ''tx2'', r_account = ''d1'', r_create_time = JsString 1001,
          r_perform_time = JsString 1003, r_cancel_time = JsString 0, r_amount = 1000000,
          r_state = 2, r_reason = None\<rparr>]), world_two)"
proof -
  have t: "transactions world_two =
     [\<lparr>col_paycom_id = ''tx1'', col_donation_id = ''d1'', col_amount = 1000000,
       col_state = 1, col_create_time = 1000, col_perform_time = 0,
       col_cancel_time = 0, col_reason = None\<rparr>,
      \<lparr>col_paycom_id = ''tx2'', col_donation_id = ''d1'', col_amount = 1000000,
       col_state = 2, col_create_time = 1001, col_perform_time = 1003,
       col_cancel_time = 0, col_reason = None\<rparr>]"
    by (simp add: world_two_eq)
  show ?thesis
    using statement_range [of "Some 1001" world_two "Some 2000"] t
    by (auto simp add: Let_def txResponse_def fromRow_def)
qed

theorem statement_zero_upper_bound_counterexample:
  "fst (handleStatement (Some 0) (Some 0) world_created) =
     ok (Transactions
        [\<lparr>r_transaction = ''tx1'', r_account = ''d1'', r_create_time = JsString 1000,
          r_perform_time = JsString 0, r_cancel_time = JsString 0, r_amount = 1000000,
          r_state = 1, r_reason = None\<rparr>]) \<and>
   \<not> ((0::int) \<le> 1000 \<and> (1000::int) \<le> 0)"
  by (simp add: world_created_eq eval_defs clock0_def)

section \<open>Repeated CreateTransaction\<close>




text \<open>
  The donation id is compared as text. A call that spells it in upper case finds the
  donation and creates the transaction, but its repeat is answered with cannot-perform,
  because the id is read back in lower case.
\<close>

lemma repeat_in_other_spelling:
  "fst (handleCreate ''D1'' 1000000 ''tx1'' world0) =
     ok (Transaction \<lparr>r_transaction = ''tx1'', r_account = ''D1'',
           r_create_time = JsNumber 1000, r_perform_time = JsNumber 0,
           r_cancel_time = JsNumber 0, r_amount = 1000000, r_state = 1, r_reason = None\<rparr>) \<and>
   fst (handleCreate ''D1'' 1000000 ''tx1'' (snd (handleCreate ''D1'' 1000000 ''tx1'' world0))) =
     fail CANNOT_PERFORM"
  by (simp add: world0_def eval_defs clock0_def)

section \<open>The times that are read back\<close>

text \<open>
  Claim C2. The claim does not hold of the code. \<open>world_stale\<close> has a Created
  transaction stamped at 1000, and the clock stands at 50000004, past 1000 plus the TTL.
  \<open>isExpired\<close> compares 100043200000 with the clock, so nothing is cancelled:
  \<open>handlePerform\<close> performs the transaction, \<open>handleCheck\<close> shows it Created, and
  \<open>handleCancel\<close> cancels it with the caller's reason.
\<close>

theorem expiry_not_detected:
  "getTransaction ''tx1'' world_stale =
     Some \<lparr>paycomTxId = ''tx1'', account = ''d1'', amount = 1000000, state = 1,
           create_time = JsString 1000, perform_time = JsString 0, cancel_time = JsString 0,
           reason = None\<rparr> \<and>
   1000 + TRANSACTION_TTL_MS < clock world_stale (ticks world_stale) \<and>
   fst (handlePerform ''tx1'' world_stale) =
     ok (Transaction \<lparr>r_transaction = ''tx1'', r_account = ''d1'',
           r_create_time = JsString 1000, r_perform_time = JsNumber 50000005,
           r_cancel_time = JsString 0, r_amount = 1000000, r_state = 2, r_reason = None\<rparr>) \<and>
   fst (handleCheck ''tx1'' world_stale) =
     ok (Transaction \<lparr>r_transaction = ''tx1'', r_account = ''d1'',
           r_create_time = JsString 1000, r_perform_time = JsString 0,
           r_cancel_time = JsString 0, r_amount = 1000000, r_state = 1, r_reason = None\<rparr>) \<and>
   fst (handleCancel ''tx1'' 3 world_stale) =
     ok (Transaction \<lparr>r_transaction = ''tx1'', r_account = ''d1'',
           r_create_time = JsString 1000, r_perform_time = JsString 0,
           r_cancel_time = JsNumber 50000005, r_amount = 1000000, r_state = -1,
           r_reason = Some 3\<rparr>)"
  by (simp add: world_stale_eq eval_defs clock_late_def)

text \<open>
  For a transaction stamped at a positive time the comparison can only come out true
  when the clock has passed a hundred million times that stamp.
\<close>

lemma expiry_needs_huge_clock:
  assumes "getTransaction k w = Some t" and "0 \<le> num_of (create_time t)"
    and "clock w (ticks w) \<le> 100000000 * num_of (create_time t)"
  shows "expire t w = (t, w\<lparr>ticks := Suc (ticks w)\<rparr>)"
proof -
  from assms(1) obtain x where "t = fromRow x" by (auto simp: getTransaction_def)
  then have "create_time t = JsString (num_of (create_time t))" by (simp add: fromRow_def)
  then have "plus_TTL (create_time t) =
      num_of (create_time t) * 100000000 + TRANSACTION_TTL_MS"
    using assms(2) by (metis plus_TTL.simps(2))
  then have "\<not> plus_TTL (create_time t) < clock w (ticks w)"
    using assms(3) by (simp add: TRANSACTION_TTL_MS_def)
  then show ?thesis by (simp add: expire_eq)
qed

text \<open>
  What the two handlers do on a transaction that is not an expired Created one; these
  parts of the cancel and perform protocol hold of the code.
\<close>

lemma handleCancel_cancelled:
  assumes "getTransaction paycomId w = Some t0" "state t0 = -1 \<or> state t0 = -2"
  shows "handleCancel paycomId rsn w =
      (ok (Transaction (txResponse t0)), w\<lparr>ticks := Suc (ticks w)\<rparr>)"
  using assms by (auto simp add: handleCancel_def expire_eq)

lemma handleCancel_live:
  assumes "getTransaction paycomId w = Some t0"
    and "state t0 \<noteq> 1 \<or>
         0 \<le> num_of (create_time t0) \<and>
         clock w (ticks w) \<le> num_of (create_time t0) + TRANSACTION_TTL_MS"
    and "state t0 \<noteq> -1" "state t0 \<noteq> -2"
  shows "handleCancel paycomId rsn w =
      (ok (Transaction (txResponse
          (t0\<lparr>state := (if state t0 = 2 then -2 else -1),
              cancel_time := JsNumber (clock w (Suc (ticks w))), reason := Some rsn\<rparr>))),
       setDonationState (account t0) (if state t0 = 2 then -2 else -1)
         (saveTransaction
            (t0\<lparr>state := (if state t0 = 2 then -2 else -1),
                cancel_time := JsNumber (clock w (Suc (ticks w))), reason := Some rsn\<rparr>)
            (w\<lparr>ticks := Suc (Suc (ticks w))\<rparr>)))"
proof -
  have "expire t0 w = (t0, w\<lparr>ticks := Suc (ticks w)\<rparr>)"
    using assms(2) by (rule expire_fresh)
  then show ?thesis
    using assms(1,3,4) by (simp add: handleCancel_def now_def Let_def)
qed

lemma handlePerform_performed:
  assumes "getTransaction paycomId w = Some t0" "state t0 = 2"
  shows "handlePerform paycomId w =
      (ok (Transaction (txResponse t0)), w\<lparr>ticks := Suc (ticks w)\<rparr>)"
  using assms by (simp add: handlePerform_def expire_eq)

lemma handlePerform_created:
  assumes "getTransaction paycomId w = Some t0" "state t0 = 1"
    and "0 \<le> num_of (create_time t0)"
    and "clock w (ticks w) \<le> num_of (create_time t0) + TRANSACTION_TTL_MS"
  shows "handlePerform paycomId w =
      (ok (Transaction (txResponse
          (t0\<lparr>state := 2, perform_time := JsNumber (clock w (Suc (ticks w)))\<rparr>))),
       setDonationState (account t0) 2
         (saveTransaction (t0\<lparr>state := 2, perform_time := JsNumber (clock w (Suc (ticks w)))\<rparr>)
            (w\<lparr>ticks := Suc (Suc (ticks w))\<rparr>)))"
proof -
  have "expire t0 w = (t0, w\<lparr>ticks := Suc (ticks w)\<rparr>)"
    using assms(3,4) by (intro expire_fresh) simp
  then show ?thesis
    using assms(1,2) by (simp add: handlePerform_def now_def Let_def)
qed

text \<open>
  Claim C3. The claim does not hold of the code. The first cancellation of the
  Created transaction of \<open>world_created\<close> answers with \<open>cancel_time\<close> as the number read
  from the clock; the second answers with the stored time as a string, so the two
  snapshots are not identical.
\<close>

theorem cancel_twice_differs:
  "fst (handleCancel ''tx1'' 5 world_created) =
     ok (Transaction \<lparr>r_transaction = ''tx1'', r_account = ''d1'',
           r_create_time = JsString 1000, r_perform_time = JsString 0,
           r_cancel_time = JsNumber 1002, r_amount = 1000000, r_state = -1,
           r_reason = Some 5\<rparr>) \<and>
   fst (handleCancel ''tx1'' 5 (snd (handleCancel ''tx1'' 5 world_created))) =
     ok (Transaction \<lparr>r_transaction = ''tx1'', r_account = ''d1'',
           r_create_time = JsString 1000, r_perform_time = JsString 0,
           r_cancel_time = JsString 1002, r_amount = 1000000, r_state = -1,
           r_reason = Some 5\<rparr>) \<and>
   fst (handleCancel ''tx1'' 5 (snd (handleCancel ''tx1'' 5 world_created))) \<noteq>
     fst (handleCancel ''tx1'' 5 world_created)"
  by (simp add: world_created_eq eval_defs clock0_def)

text \<open>
  Claim C4. The claim does not hold of the code. The first \<open>handlePerform\<close> on the
  Created transaction of \<open>world_created\<close> answers with \<open>perform_time\<close> as the number read
  from the clock; the second answers with the stored time as a string.
\<close>

theorem perform_twice_differs:
  "fst (handlePerform ''tx1'' world_created) =
     ok (Transaction \<lparr>r_transaction = ''tx1'', r_account = ''d1'',
           r_create_time = JsString 1000, r_perform_time = JsNumber 1002,
           r_cancel_time = JsString 0, r_amount = 1000000, r_state = 2, r_reason = None\<rparr>) \<and>
   fst (handlePerform ''tx1'' (snd (handlePerform ''tx1'' world_created))) =
     ok (Transaction \<lparr>r_transaction = ''tx1'', r_account = ''d1'',
           r_create_time = JsString 1000, r_perform_time = JsString 1002,
           r_cancel_time = JsString 0, r_amount = 1000000, r_state = 2, r_reason = None\<rparr>) \<and>
   r_perform_time \<lparr>r_transaction = ''tx1'', r_account = ''d1'',
           r_create_time = JsString 1000, r_perform_time = JsString 1002,
           r_cancel_time = JsString 0, r_amount = 1000000, r_state = 2, r_reason = None\<rparr> \<noteq>
     r_perform_time \<lparr>r_transaction = ''tx1'', r_account = ''d1'',
           r_create_time = JsString 1000, r_perform_time = JsNumber 1002,
           r_cancel_time = JsString 0, r_amount = 1000000, r_state = 2, r_reason = None\<rparr>"
  by (simp add: world_created_eq eval_defs clock0_def)

section \<open>What one call writes\<close>

lemma one_write_none:
  "clock w' = clock w \<Longrightarrow> transactions w' = transactions w \<Longrightarrow> one_write w w'"
  by (simp add: one_write_def)

lemma one_write_expire:
  assumes "getTransaction k w = Some t0"
  shows "one_write w (snd (expire t0 w))"
proof (cases "plus_TTL (create_time t0) < clock w (ticks w) \<and> state t0 = 1")
  case True
  let ?tc = "t0\<lparr>state := -1, cancel_time := JsNumber (clock w (Suc (ticks w))), reason := Some 4\<rparr>"
  have k: "paycomTxId t0 = k" using assms by (rule getTransaction_key)
  have "transactions (snd (expire t0 w)) = transactions (saveTransaction ?tc w)"
    using True by (simp add: expire_eq)
  moreover have "clock (snd (expire t0 w)) = clock w"
    using True by (simp add: expire_eq)
  ultimately show ?thesis
    unfolding one_write_def using True assms k
    by (intro conjI disjI2 exI [of _ ?tc]) simp_all
next
  case False
  then show ?thesis by (auto simp add: expire_eq one_write_def)
qed

lemma one_write_perform: "one_write w (snd (handlePerform k w))"
proof (cases "getTransaction k w")
  case None
  then show ?thesis by (simp add: handlePerform_def one_write_def)
next
  case (Some t0)
  have k: "paycomTxId t0 = k" using Some by (rule getTransaction_key)
  show ?thesis
  proof (cases "plus_TTL (create_time t0) < clock w (ticks w) \<and> state t0 = 1")
    case True
    then have "snd (handlePerform k w) = snd (expire t0 w)"
      using Some by (simp add: handlePerform_def expire_eq)
    then show ?thesis using one_write_expire [OF Some] by simp
  next
    case False
    show ?thesis
    proof (cases "state t0 = -1 \<or> state t0 = -2 \<or> state t0 = 2")
      case True
      then show ?thesis using Some False
        by (auto simp add: handlePerform_def expire_eq one_write_def)
    next
      case live: False
      let ?t2 = "t0\<lparr>state := 2, perform_time := JsNumber (clock w (Suc (ticks w)))\<rparr>"
      have "snd (handlePerform k w) =
          setDonationState (account t0) 2 (saveTransaction ?t2 (w\<lparr>ticks := Suc (Suc (ticks w))\<rparr>))"
        using Some False live by (auto simp add: handlePerform_def expire_eq now_def Let_def)
      then have "transactions (snd (handlePerform k w)) = transactions (saveTransaction ?t2 w)"
        "clock (snd (handlePerform k w)) = clock w"
        by simp_all
      then show ?thesis
        unfolding one_write_def using Some k live
        by (intro conjI disjI2 exI [of _ ?t2]) auto
    qed
  qed
qed

lemma one_write_cancel: "one_write w (snd (handleCancel k rsn w))"
proof (cases "getTransaction k w")
  case None
  then show ?thesis by (simp add: handleCancel_def one_write_def)
next
  case (Some t0)
  have k: "paycomTxId t0 = k" using Some by (rule getTransaction_key)
  show ?thesis
  proof (cases "plus_TTL (create_time t0) < clock w (ticks w) \<and> state t0 = 1")
    case True
    then have "snd (handleCancel k rsn w) = snd (expire t0 w)"
      using Some by (simp add: handleCancel_def expire_eq)
    then show ?thesis using one_write_expire [OF Some] by simp
  next
    case False
    show ?thesis
    proof (cases "state t0 = -1 \<or> state t0 = -2")
      case True
      then show ?thesis using Some False
        by (auto simp add: handleCancel_def expire_eq one_write_def)
    next
      case live: False
      let ?t2 = "t0\<lparr>state := (if state t0 = 2 then -2 else -1),
          cancel_time := JsNumber (clock w (Suc (ticks w))), reason := Some rsn\<rparr>"
      have "snd (handleCancel k rsn w) =
          setDonationState (account t0) (if state t0 = 2 then -2 else -1)
            (saveTransaction ?t2 (w\<lparr>ticks := Suc (Suc (ticks w))\<rparr>))"
        using Some False live by (auto simp add: handleCancel_def expire_eq now_def Let_def)
      then have "transactions (snd (handleCancel k rsn w)) = transactions (saveTransaction ?t2 w)"
        "clock (snd (handleCancel k rsn w)) = clock w"
        by simp_all
      then show ?thesis
        unfolding one_write_def using Some k live
        by (intro conjI disjI2 exI [of _ ?t2]) auto
    qed
  qed
qed

lemma one_write_check: "one_write w (snd (handleCheck k w))"
proof (cases "getTransaction k w")
  case None
  then show ?thesis by (simp add: handleCheck_def one_write_def)
next
  case (Some t0)
  then have "snd (handleCheck k w) = snd (expire t0 w)"
    by (simp add: handleCheck_def split: prod.splits)
  then show ?thesis using one_write_expire [OF Some] by simp
qed

lemma one_write_create: "one_write w (snd (handleCreate donationId amt k w))"
proof (cases "\<exists>d. getDonation donationId w = Some d \<and> d_amount d = amt \<and> d_state d \<noteq> 2")
  case False
  then show ?thesis
    by (auto simp add: handleCreate_def one_write_def split: option.splits)
next
  case True
  then obtain d where d: "getDonation donationId w = Some d" "d_amount d = amt" "d_state d \<noteq> 2"
    by blast
  show ?thesis
  proof (cases "getTransaction k w")
    case (Some t0)
    show ?thesis
    proof (cases "account t0 = donationId \<and> amount t0 = amt")
      case True
      then have "snd (handleCreate donationId amt k w) = snd (expire t0 w)"
        using d Some by (simp add: handleCreate_def split: prod.splits)
      then show ?thesis using one_write_expire [OF Some] by simp
    next
      case False
      then show ?thesis using d Some
        by (auto simp add: handleCreate_def one_write_def)
    qed
  next
    case None
    let ?t1 = "\<lparr>paycomTxId = k, account = donationId, amount = amt, state = 1,
        create_time = JsNumber (clock w (ticks w)), perform_time = JsNumber 0,
        cancel_time = JsNumber 0, reason = None\<rparr>"
    have "snd (handleCreate donationId amt k w) =
        setDonationState donationId 1 (saveTransaction ?t1 (w\<lparr>ticks := Suc (ticks w)\<rparr>))"
      using d None by (simp add: handleCreate_def now_def Let_def)
    then have "transactions (snd (handleCreate donationId amt k w)) =
        transactions (saveTransaction ?t1 w)"
      "clock (snd (handleCreate donationId amt k w)) = clock w"
      by simp_all
    then show ?thesis
      unfolding one_write_def using None
      by (intro conjI disjI2 exI [of _ ?t1]) auto
  qed
qed

lemma one_write_statement: "one_write w (snd (handleStatement from to w))"
  by (simp add: handleStatement_def listTransactions_def now_def one_write_def Let_def
      split: prod.splits)

lemma one_write_step: "one_write w (snd (merchantHandler auth req w))"
proof (cases auth)
  case False
  then show ?thesis by (simp add: one_write_def)
next
  case True
  then show ?thesis
    by (cases req)
      (simp_all add: one_write_perform one_write_cancel one_write_check one_write_create
        one_write_statement, simp_all add: one_write_def handleCheckPerform_def
        split: option.splits)
qed

lemma readback_text:
  assumes "getTransaction k w = Some r"
  shows "create_time r = JsString (num_of (create_time r))"
    and "perform_time r = JsString (num_of (perform_time r))"
    and "cancel_time r = JsString (num_of (cancel_time r))"
proof -
  from assms obtain x where "r = fromRow x" by (auto simp: getTransaction_def)
  then show "create_time r = JsString (num_of (create_time r))"
    and "perform_time r = JsString (num_of (perform_time r))"
    and "cancel_time r = JsString (num_of (cancel_time r))"
    by (simp_all add: fromRow_def)
qed

lemma getTransaction_cong:
  "transactions w' = transactions w \<Longrightarrow> getTransaction k w' = getTransaction k w"
  by (simp add: getTransaction_def)

lemma tx_ok_update:
  "tx_ok (r\<lparr>col_state := state t, col_perform_time := num_of (perform_time t),
           col_cancel_time := c, col_reason := x\<rparr>) = tx_ok (toRow t)"
  by (simp add: tx_ok_def toRow_def)

lemma save_tx_ok:
  assumes "tx_ok (toRow t)" and "\<forall>r\<in>set (transactions w). tx_ok r"
  shows "\<forall>r\<in>set (transactions (saveTransaction t w)). tx_ok r"
  using assms by (auto simp add: saveTransaction_def tx_ok_update split: option.splits)

lemma one_write_tx_ok:
  assumes ow: "one_write w w'"
    and clk: "\<forall>n. clock w n \<noteq> 0"
    and inv: "\<forall>r\<in>set (transactions w). tx_ok r"
  shows "\<forall>r\<in>set (transactions w'). tx_ok r"
proof (cases "transactions w' = transactions w")
  case True
  then show ?thesis using inv by simp
next
  case False
  with ow obtain t where t: "transactions w' = transactions (saveTransaction t w)"
    and c: "case getTransaction (paycomTxId t) w of
            None \<Rightarrow> state t = 1 \<and> num_of (perform_time t) = 0
          | Some t0 \<Rightarrow>
              (state t0 = 1 \<and> state t = -1 \<and> perform_time t = perform_time t0 \<or>
               state t0 \<noteq> -1 \<and> state t0 \<noteq> -2 \<and> state t0 \<noteq> 2 \<and> state t = 2 \<and>
                 (\<exists>n. perform_time t = JsNumber (clock w n)) \<or>
               state t0 \<noteq> -1 \<and> state t0 \<noteq> -2 \<and>
                 state t = (if state t0 = 2 then -2 else -1) \<and>
                 perform_time t = perform_time t0)"
    unfolding one_write_def by blast
  have "tx_ok (toRow t)"
  proof (cases "getTransaction (paycomTxId t) w")
    case None
    then show ?thesis using c by (simp add: tx_ok_def toRow_def)
  next
    case (Some t0)
    then obtain x where x: "x \<in> set (transactions w)" "fromRow x = t0"
      by (auto dest: getTransaction_row)
    then have "tx_ok x" using inv by simp
    then have ok0: "state t0 = 1 \<or> state t0 = 2 \<or> state t0 = -1 \<or> state t0 = -2"
      "(num_of (perform_time t0) \<noteq> 0) = (state t0 = 2 \<or> state t0 = -2)"
      using x(2) by (auto simp add: tx_ok_def fromRow_def)
    from c Some consider
        "state t0 = 1" "state t = -1" "perform_time t = perform_time t0"
      | n where "state t = 2" "perform_time t = JsNumber (clock w n)"
      | "state t0 \<noteq> -1" "state t0 \<noteq> -2" "state t = (if state t0 = 2 then -2 else -1)"
        "perform_time t = perform_time t0"
      by auto
    then show ?thesis
    proof cases
      case 1
      then show ?thesis using ok0 by (simp add: tx_ok_def toRow_def)
    next
      case 2
      have "clock w n \<noteq> 0" using clk by simp
      then show ?thesis using 2 by (simp add: tx_ok_def toRow_def)
    next
      case 3
      then show ?thesis using ok0 by (simp add: tx_ok_def toRow_def split: if_splits)
    qed
  qed
  then have "\<forall>r\<in>set (transactions (saveTransaction t w)). tx_ok r"
    using inv by (rule save_tx_ok)
  then show ?thesis using t by simp
qed

lemma save_row:
  assumes "getTransaction k w = Some r"
  shows "\<exists>r'. getTransaction k (saveTransaction t w) = Some r' \<and>
           paycomTxId r' = k \<and> account r' = account r \<and> amount r' = amount r \<and>
           create_time r' = create_time r \<and>
           (if paycomTxId t = k
            then state r' = state t \<and> perform_time r' = JsString (num_of (perform_time t)) \<and>
                 cancel_time r' = JsString (num_of (cancel_time t)) \<and> reason r' = reason t
            else r' = r)"
proof (cases "paycomTxId t = k")
  case True
  then show ?thesis
    using getTransaction_save_same [OF assms True] getTransaction_key [OF assms] by simp
next
  case False
  then show ?thesis
    using getTransaction_save_other [OF False, of w] assms getTransaction_key [OF assms] by simp
qed

lemma one_write_row:
  assumes ow: "one_write w w'" and row: "getTransaction k w = Some r"
  shows "\<exists>r'. getTransaction k w' = Some r' \<and>
           account r' = account r \<and> amount r' = amount r \<and> create_time r' = create_time r \<and>
           (state r = 2 \<or> state r = -2 \<longrightarrow>
              perform_time r' = perform_time r \<and> (state r' = 2 \<or> state r' = -2))"
proof (cases "transactions w' = transactions w")
  case True
  then have "getTransaction k w' = getTransaction k w" by (rule getTransaction_cong)
  then show ?thesis using row by simp
next
  case False
  with ow obtain t where t: "transactions w' = transactions (saveTransaction t w)"
    and c: "case getTransaction (paycomTxId t) w of
            None \<Rightarrow> state t = 1 \<and> num_of (perform_time t) = 0
          | Some t0 \<Rightarrow>
              (state t0 = 1 \<and> state t = -1 \<and> perform_time t = perform_time t0 \<or>
               state t0 \<noteq> -1 \<and> state t0 \<noteq> -2 \<and> state t0 \<noteq> 2 \<and> state t = 2 \<and>
                 (\<exists>n. perform_time t = JsNumber (clock w n)) \<or>
               state t0 \<noteq> -1 \<and> state t0 \<noteq> -2 \<and>
                 state t = (if state t0 = 2 then -2 else -1) \<and>
                 perform_time t = perform_time t0)"
    unfolding one_write_def by blast
  have g: "getTransaction k w' = getTransaction k (saveTransaction t w)"
    using t by (rule getTransaction_cong)
  show ?thesis
  proof (cases "paycomTxId t = k")
    case True
    have c': "state r = 1 \<and> state t = -1 \<and> perform_time t = perform_time r \<or>
        state r \<noteq> -1 \<and> state r \<noteq> -2 \<and> state r \<noteq> 2 \<and> state t = 2 \<or>
        state r \<noteq> -1 \<and> state r \<noteq> -2 \<and>
          state t = (if state r = 2 then -2 else -1) \<and> perform_time t = perform_time r"
      using c row True by auto
    have p: "state r = 2 \<or> state r = -2 \<longrightarrow>
        perform_time t = perform_time r \<and> (state t = 2 \<or> state t = -2)"
      using c' by (auto split: if_splits)
    have g': "getTransaction k w' =
        Some (r\<lparr>state := state t, perform_time := JsString (num_of (perform_time t)),
                cancel_time := JsString (num_of (cancel_time t)), reason := reason t\<rparr>)"
      using g getTransaction_save_same [OF row True] by simp
    show ?thesis unfolding g' using p readback_text(2) [OF row] by auto
  next
    case other: False
    then show ?thesis using g getTransaction_save_other [OF other, of w] row by simp
  qed
qed

lemma one_write_after_perform:
  assumes ow: "one_write w w'" and row: "getTransaction k w' = Some r'" and st: "state r' = -2"
  shows "\<exists>r. getTransaction k w = Some r \<and> (state r = 2 \<or> state r = -2) \<and>
           perform_time r' = perform_time r"
proof (cases "transactions w' = transactions w")
  case True
  then have "getTransaction k w' = getTransaction k w" by (rule getTransaction_cong)
  then have "getTransaction k w = Some r'" using row by simp
  then show ?thesis using st by simp
next
  case False
  with ow obtain t where t: "transactions w' = transactions (saveTransaction t w)"
    and c: "case getTransaction (paycomTxId t) w of
            None \<Rightarrow> state t = 1 \<and> num_of (perform_time t) = 0
          | Some t0 \<Rightarrow>
              (state t0 = 1 \<and> state t = -1 \<and> perform_time t = perform_time t0 \<or>
               state t0 \<noteq> -1 \<and> state t0 \<noteq> -2 \<and> state t0 \<noteq> 2 \<and> state t = 2 \<and>
                 (\<exists>n. perform_time t = JsNumber (clock w n)) \<or>
               state t0 \<noteq> -1 \<and> state t0 \<noteq> -2 \<and>
                 state t = (if state t0 = 2 then -2 else -1) \<and>
                 perform_time t = perform_time t0)"
    unfolding one_write_def by blast
  have g: "getTransaction k w' = getTransaction k (saveTransaction t w)"
    using t by (rule getTransaction_cong)
  show ?thesis
  proof (cases "paycomTxId t = k")
    case other: False
    have "getTransaction k w = Some r'"
      using g getTransaction_save_other [OF other, of w] row by simp
    then show ?thesis using st by simp
  next
    case True
    show ?thesis
    proof (cases "getTransaction k w")
      case None
      then have "r' = fromRow (toRow t)" using g getTransaction_save_new [of t w] True row by simp
      then have "state r' = state t" by (simp add: fromRow_def toRow_def)
      then show ?thesis using c None True st by simp
    next
      case (Some t0)
      have c': "state t0 = 1 \<and> state t = -1 \<and> perform_time t = perform_time t0 \<or>
          state t0 \<noteq> -1 \<and> state t0 \<noteq> -2 \<and> state t0 \<noteq> 2 \<and> state t = 2 \<or>
          state t0 \<noteq> -1 \<and> state t0 \<noteq> -2 \<and>
            state t = (if state t0 = 2 then -2 else -1) \<and> perform_time t = perform_time t0"
        using c Some True by auto
      have "r' = t0\<lparr>state := state t, perform_time := JsString (num_of (perform_time t)),
                cancel_time := JsString (num_of (cancel_time t)), reason := reason t\<rparr>"
        using g getTransaction_save_same [OF Some True] row by simp
      then have r: "state r' = state t" "perform_time r' = JsString (num_of (perform_time t))"
        by simp_all
      have "state t = -2" using st r by simp
      then have "(state t0 = 2 \<or> state t0 = -2) \<and> perform_time t = perform_time t0"
        using c' by (auto split: if_splits)
      then show ?thesis using Some r readback_text(2) [OF Some] by simp
    qed
  qed
qed

lemma run_clock: "clock (run reqs w) = clock w"
proof (induction reqs arbitrary: w)
  case Nil
  then show ?case by simp
next
  case (Cons a reqs)
  obtain auth req where a: "a = (auth, req)" by (cases a)
  have "clock (snd (merchantHandler auth req w)) = clock w"
    using one_write_step [of w auth req] by (simp add: one_write_def)
  then show ?case using Cons.IH a by simp
qed

lemma run_tx_ok:
  "\<forall>n. clock w n \<noteq> 0 \<Longrightarrow> \<forall>r\<in>set (transactions w). tx_ok r \<Longrightarrow>
   \<forall>r\<in>set (transactions (run reqs w)). tx_ok r"
proof (induction reqs arbitrary: w)
  case Nil
  then show ?case by simp
next
  case (Cons a reqs)
  obtain auth req where a: "a = (auth, req)" by (cases a)
  let ?w = "snd (merchantHandler auth req w)"
  have ow: "one_write w ?w" by (rule one_write_step)
  then have "clock ?w = clock w" by (simp add: one_write_def)
  then have c: "\<forall>n. clock ?w n \<noteq> 0" using Cons.prems(1) by simp
  have "\<forall>r\<in>set (transactions ?w). tx_ok r"
    using ow Cons.prems by (rule one_write_tx_ok)
  then show ?case using Cons.IH [OF c] a by simp
qed

lemma run_row:
  "getTransaction k w = Some r \<Longrightarrow>
   \<exists>r'. getTransaction k (run reqs w) = Some r' \<and>
        account r' = account r \<and> amount r' = amount r \<and> create_time r' = create_time r \<and>
        (state r = 2 \<or> state r = -2 \<longrightarrow>
           perform_time r' = perform_time r \<and> (state r' = 2 \<or> state r' = -2))"
proof (induction reqs arbitrary: w r)
  case Nil
  then show ?case by simp
next
  case (Cons a reqs)
  obtain auth req where a: "a = (auth, req)" by (cases a)
  let ?w = "snd (merchantHandler auth req w)"
  have ow: "one_write w ?w" by (rule one_write_step)
  from one_write_row [OF ow Cons.prems] obtain r1 where r1:
    "getTransaction k ?w = Some r1" "account r1 = account r" "amount r1 = amount r"
    "create_time r1 = create_time r"
    "state r = 2 \<or> state r = -2 \<longrightarrow>
       perform_time r1 = perform_time r \<and> (state r1 = 2 \<or> state r1 = -2)"
    by blast
  from Cons.IH [OF r1(1)] obtain r' where r':
    "getTransaction k (run reqs ?w) = Some r'" "account r' = account r1" "amount r' = amount r1"
    "create_time r' = create_time r1"
    "state r1 = 2 \<or> state r1 = -2 \<longrightarrow>
       perform_time r' = perform_time r1 \<and> (state r' = 2 \<or> state r' = -2)"
    by blast
  show ?case using a r1 r' by auto
qed

section \<open>Invariants over sequences of calls\<close>

text \<open>
  Claim C8. \<open>saveTransaction\<close> on an external id that has a row leaves the row's
  \<open>account\<close> (donation id), \<open>amount\<close> and \<open>create_time\<close> as they are, whatever the
  proposed row holds in these columns, and overwrites \<open>state\<close>, \<open>perform_time\<close>,
  \<open>cancel_time\<close> and \<open>reason\<close>; rows of other external ids are untouched. Hence after
  any sequence of calls a persisted transaction still exists with the amount, donation id
  and creation time it had.
\<close>

theorem write_once_columns:
  assumes "getTransaction k w = Some r"
  shows
   "(\<exists>r'. getTransaction k (saveTransaction t w) = Some r' \<and>
          paycomTxId r' = k \<and> account r' = account r \<and> amount r' = amount r \<and>
          create_time r' = create_time r \<and>
          (if paycomTxId t = k
           then state r' = state t \<and> perform_time r' = JsString (num_of (perform_time t)) \<and>
                cancel_time r' = JsString (num_of (cancel_time t)) \<and> reason r' = reason t
           else r' = r)) \<and>
    (\<exists>r'. getTransaction k (run reqs w) = Some r' \<and>
          account r' = account r \<and> amount r' = amount r \<and> create_time r' = create_time r)"
proof -
  from run_row [OF assms, of reqs] obtain r' where
    "getTransaction k (run reqs w) = Some r'" "account r' = account r" "amount r' = amount r"
    "create_time r' = create_time r"
    by blast
  then show ?thesis using save_row [OF assms, of t] by blast
qed

theorem write_once_columns_witness:
  "map_option (\<lambda>r. (account r, amount r, create_time r, state r, perform_time r))
     (getTransaction ''tx1''
        (saveTransaction
           \<lparr>paycomTxId = ''tx1'', account = ''d2'', amount = 5, state = 2,
            create_time = JsNumber 7, perform_time = JsNumber 8, cancel_time = JsNumber 0,
            reason = None\<rparr> world_created)) =
     Some (''d1'', 1000000, JsString 1000, 2, JsString 8) \<and>
   map_option (\<lambda>r. (account r, amount r, create_time r))
     (getTransaction ''tx1''
        (run [(True, PerformTransaction ''tx1''), (True, CancelTransaction ''tx1'' (Some 5)),
              (True, CreateTransaction ''d2'' 1000000 ''tx1'')] world_created)) =
     Some (''d1'', 1000000, JsString 1000)"
proof -
  show ?thesis
    using write_once_columns [OF tx1_created,
        of "\<lparr>paycomTxId = ''tx1'', account = ''d2'', amount = 5, state = 2,
            create_time = JsNumber 7, perform_time = JsNumber 8, cancel_time = JsNumber 0,
            reason = None\<rparr>"
           "[(True, PerformTransaction ''tx1''), (True, CancelTransaction ''tx1'' (Some 5)),
              (True, CreateTransaction ''d2'' 1000000 ''tx1'')]"]
    by auto
qed

text \<open>
  Claim C7. Provided no reading of the clock is 0, every sequence of calls keeps, for
  every row, the state among 1, 2, -1, -2 and \<open>perform_time\<close> non-zero exactly when the
  state is 2 (Performed) or -2 (CancelledAfterPerform). A row in state 2 or -2 keeps its
  \<open>perform_time\<close> through every later call, cancellation included, so it is never reset
  to zero; and a row that a call leaves in state -2 was in state 2 or -2 before that
  call, with the same \<open>perform_time\<close>.
\<close>

theorem perform_time_invariant:
  assumes "\<forall>n. clock w n \<noteq> 0" and "\<forall>r\<in>set (transactions w). tx_ok r"
  shows
   "(\<forall>r\<in>set (transactions (run reqs w)). tx_ok r) \<and>
    (\<forall>k r. getTransaction k w = Some r \<and> (state r = 2 \<or> state r = -2) \<longrightarrow>
       (\<exists>r'. getTransaction k (run reqs w) = Some r' \<and> perform_time r' = perform_time r \<and>
             num_of (perform_time r') \<noteq> 0 \<and> (state r' = 2 \<or> state r' = -2))) \<and>
    (\<forall>auth req k r'.
       getTransaction k (snd (merchantHandler auth req w)) = Some r' \<and> state r' = -2 \<longrightarrow>
       (\<exists>r. getTransaction k w = Some r \<and> (state r = 2 \<or> state r = -2) \<and>
            perform_time r' = perform_time r))"
proof (intro conjI allI impI)
  show "\<forall>r\<in>set (transactions (run reqs w)). tx_ok r"
    using assms by (rule run_tx_ok)
next
  fix k r
  assume a: "getTransaction k w = Some r \<and> (state r = 2 \<or> state r = -2)"
  then obtain x where x: "x \<in> set (transactions w)" "fromRow x = r"
    by (auto dest: getTransaction_row)
  then have "tx_ok x" using assms(2) by simp
  then have nz: "num_of (perform_time r) \<noteq> 0"
    using a x(2) by (auto simp add: tx_ok_def fromRow_def)
  from a run_row [of k w r reqs] obtain r' where
    "getTransaction k (run reqs w) = Some r'" "perform_time r' = perform_time r"
    "state r' = 2 \<or> state r' = -2"
    by blast
  then show "\<exists>r'. getTransaction k (run reqs w) = Some r' \<and> perform_time r' = perform_time r \<and>
             num_of (perform_time r') \<noteq> 0 \<and> (state r' = 2 \<or> state r' = -2)"
    using nz by simp
next
  fix auth req k r'
  assume "getTransaction k (snd (merchantHandler auth req w)) = Some r' \<and> state r' = -2"
  then show "\<exists>r. getTransaction k w = Some r \<and> (state r = 2 \<or> state r = -2) \<and>
            perform_time r' = perform_time r"
    using one_write_after_perform [OF one_write_step [of w auth req], of k r'] by simp
qed

theorem perform_time_invariant_witness:
  "transactions
     (run [(True, CreateTransaction ''d1'' 1000000 ''tx1''), (True, PerformTransaction ''tx1''),
           (True, CancelTransaction ''tx1'' (Some 5))] world0) =
     [\<lparr>col_paycom_id = ''tx1'', col_donation_id = ''d1'', col_amount = 1000000,
       col_state = -2, col_create_time = 1000, col_perform_time = 1002,
       col_cancel_time = 1004, col_reason = Some 5\<rparr>] \<and>
   tx_ok \<lparr>col_paycom_id = ''tx1'', col_donation_id = ''d1'', col_amount = 1000000,
       col_state = -2, col_create_time = 1000, col_perform_time = 1002,
       col_cancel_time = 1004, col_reason = Some 5\<rparr> \<and>
   map_option perform_time
     (getTransaction ''tx1'' (run [(True, CancelTransaction ''tx1'' (Some 5))] world_performed)) =
     Some (JsString 1002)"
proof -
  have c0: "\<forall>n. clock world0 n \<noteq> 0" "\<forall>r\<in>set (transactions world0). tx_ok r"
    by (simp_all add: world0_def clock0_def)
  have cp: "\<forall>n. clock world_performed n \<noteq> 0" "\<forall>r\<in>set (transactions world_performed). tx_ok r"
    by (simp_all add: world_performed_eq clock0_def tx_ok_def)
  have t: "transactions
     (run [(True, CreateTransaction ''d1'' 1000000 ''tx1''), (True, PerformTransaction ''tx1''),
           (True, CancelTransaction ''tx1'' (Some 5))] world0) =
     [\<lparr>col_paycom_id = ''tx1'', col_donation_id = ''d1'', col_amount = 1000000,
       col_state = -2, col_create_time = 1000, col_perform_time = 1002,
       col_cancel_time = 1004, col_reason = Some 5\<rparr>]"
    by (simp add: world0_def eval_defs clock0_def)
  have "tx_ok \<lparr>col_paycom_id = ''tx1'', col_donation_id = ''d1'', col_amount = 1000000,
       col_state = -2, col_create_time = 1000, col_perform_time = 1002,
       col_cancel_time = 1004, col_reason = Some 5\<rparr>"
    using perform_time_invariant [OF c0,
        of "[(True, CreateTransaction ''d1'' 1000000 ''tx1''), (True, PerformTransaction ''tx1''),
           (True, CancelTransaction ''tx1'' (Some 5))]"] t
    by simp
  moreover have "map_option perform_time
     (getTransaction ''tx1'' (run [(True, CancelTransaction ''tx1'' (Some 5))] world_performed)) =
     Some (JsString 1002)"
    using perform_time_invariant [OF cp, of "[(True, CancelTransaction ''tx1'' (Some 5))]",
        THEN conjunct2, THEN conjunct1, rule_format, of "''tx1''", OF conjI [OF tx1_performed]]
    by auto
  ultimately show ?thesis using t by simp
qed

end
